theory Spec2Isabelle
  imports Complex_Main "HOL-Library.Sublist"
begin

section \<open>Python values used by \<^verbatim>\<open>app.py\<close>\<close>

text \<open>
  A Python \<^verbatim>\<open>str\<close> is a sequence of Unicode code points, a \<^verbatim>\<open>bytes\<close> object a
  sequence of 8-bit values. Code points are natural numbers, bytes are \<^typ>\<open>char\<close>
  (which in HOL is exactly one byte).
\<close>

type_synonym pystr = "nat list"
type_synonym bytes = "char list"

text \<open>A source literal (ASCII only in \<^verbatim>\<open>app.py\<close>) as a Python string.\<close>

definition lit :: "string \<Rightarrow> pystr" where
  "lit s = map of_char s"

text \<open>
  The body returned by \<^verbatim>\<open>request.get_json()\<close>. \<^verbatim>\<open>None\<close> is \<open>JNull\<close>; a dict is
  an association list whose keys are distinct, as in a Python dict. JSON numbers with a
  fraction (Python floats) are not part of the model.
\<close>

datatype json =
    JNull
  | JBool bool
  | JNum int
  | JStr pystr
  | JArr "json list"
  | JObj "(pystr \<times> json) list"

text \<open>Python truthiness: what \<^verbatim>\<open>not x\<close> and \<^verbatim>\<open>all([...])\<close> test.\<close>

fun truthy :: "json \<Rightarrow> bool" where
  "truthy JNull = False"
| "truthy (JBool b) = b"
| "truthy (JNum n) = (n \<noteq> 0)"
| "truthy (JStr s) = (s \<noteq> [])"
| "truthy (JArr xs) = (xs \<noteq> [])"
| "truthy (JObj kvs) = (kvs \<noteq> [])"

text \<open>\<^verbatim>\<open>data.get(key)\<close> on a dict: the value, or \<^verbatim>\<open>None\<close> when the key is absent.\<close>

definition dict_get :: "(pystr \<times> json) list \<Rightarrow> pystr \<Rightarrow> json" where
  "dict_get kvs k = (case map_of kvs k of None \<Rightarrow> JNull | Some v \<Rightarrow> v)"

text \<open>
  Exceptions: the class decides which \<^verbatim>\<open>except\<close> clause catches, the text is
  \<^verbatim>\<open>str(e)\<close>. \<open>SerialException\<close> stands for \<^verbatim>\<open>serial.SerialException\<close> and its
  subclasses, \<open>OtherException\<close> for any other subclass of \<^verbatim>\<open>Exception\<close> that is none
  of the classes listed.
\<close>

datatype exn_class =
    SerialException
  | UnicodeDecodeError
  | UnicodeEncodeError
  | AttributeError
  | TypeError
  | SyntaxError
  | OtherException

datatype exn = Exn (exn_cls: exn_class) (exn_text: pystr)

subsection \<open>\<^verbatim>\<open>str.strip\<close>, \<^verbatim>\<open>str.encode('ascii')\<close>, \<^verbatim>\<open>bytes.decode('ascii', errors='ignore')\<close>\<close>

text \<open>The code points \<^verbatim>\<open>str.strip()\<close> removes: those for which \<^verbatim>\<open>str.isspace\<close> holds.\<close>

definition py_isspace :: "nat \<Rightarrow> bool" where
  "py_isspace c \<longleftrightarrow>
     (9 \<le> c \<and> c \<le> 13) \<or> (28 \<le> c \<and> c \<le> 32) \<or> c = 133 \<or> c = 160 \<or> c = 5760 \<or>
     (8192 \<le> c \<and> c \<le> 8202) \<or> c = 8232 \<or> c = 8233 \<or> c = 8239 \<or> c = 8287 \<or> c = 12288"

definition py_strip :: "pystr \<Rightarrow> pystr" where
  "py_strip s = rev (dropWhile py_isspace (rev (dropWhile py_isspace s)))"

text \<open>\<^verbatim>\<open>s.encode('ascii')\<close>: \<open>None\<close> is the \<^verbatim>\<open>UnicodeEncodeError\<close> of a code point above 127.\<close>

definition encode_ascii :: "pystr \<Rightarrow> bytes option" where
  "encode_ascii s = (if list_all (\<lambda>c. c < 128) s then Some (map char_of s) else None)"

text \<open>\<^verbatim>\<open>b.decode('ascii', errors='ignore')\<close>: bytes above 127 are dropped, nothing is raised.\<close>

definition decode_ascii_ignore :: "bytes \<Rightarrow> pystr" where
  "decode_ascii_ignore bs = map of_char (filter (\<lambda>b. (of_char b :: nat) < 128) bs)"

text \<open>\<^verbatim>\<open>sep.join(lines)\<close>.\<close>

fun join :: "pystr \<Rightarrow> pystr list \<Rightarrow> pystr" where
  "join sep [] = []"
| "join sep [x] = x"
| "join sep (x # y # ys) = x @ sep @ join sep (y # ys)"

section \<open>The serial port, the clock and the interpreter as an environment\<close>

text \<open>
  Everything \<^verbatim>\<open>app.py\<close> calls and does not define is a parameter: what
  \<^verbatim>\<open>serial.Serial(port, baudrate, ...)\<close> does for given arguments, what the k-th call of
  \<^verbatim>\<open>time.time()\<close>, \<^verbatim>\<open>ser.write\<close>, \<^verbatim>\<open>ser.in_waiting\<close> and \<^verbatim>\<open>ser.readline()\<close> returns
  or raises, how the interpreter prints a non-string value in an f-string and the text of
  the exceptions it raises itself. \<^verbatim>\<open>time.time()\<close> is read in seconds; \<^verbatim>\<open>time.sleep\<close>
  only lets time pass, which is what the next reading of the clock reports.
  The last parameter is the string that the name \<^verbatim>\<open>save_command\<close> holds in the
  \<^verbatim>\<open>try\<close> block of \<^verbatim>\<open>save_config\<close>: line 116, which should bind it, is not a line
  that Python accepts as it is committed (see \<open>line_116\<close> below), so no value is read from it.
\<close>

type_synonym time = rat

record env =
  serial_open :: "json \<Rightarrow> json \<Rightarrow> exn option"
  clock :: "nat \<Rightarrow> time"
  write_result :: "nat \<Rightarrow> exn option"
  in_waiting :: "nat \<Rightarrow> exn + int"
  readline :: "nat \<Rightarrow> exn + bytes"
  py_repr :: "json \<Rightarrow> pystr"
  py_error_text :: "exn_class \<Rightarrow> json \<Rightarrow> pystr"
  save_command :: pystr

text \<open>The calls made on the serial port, in order, as a spying transport would log them.\<close>

datatype event =
    EvOpen json json
  | EvWrite bytes
  | EvInWaiting
  | EvReadline
  | EvClose

text \<open>How many times each oracle was consulted, and the log of port calls.\<close>

record world =
  n_time :: nat
  n_write :: nat
  n_poll :: nat
  n_read :: nat
  trace :: "event list"

definition world0 :: world where
  "world0 = \<lparr>n_time = 0, n_write = 0, n_poll = 0, n_read = 0, trace = []\<rparr>"

text \<open>\<^verbatim>\<open>f"{v}"\<close>: a string prints as itself.\<close>

definition py_str :: "env \<Rightarrow> json \<Rightarrow> pystr" where
  "py_str env v = (case v of JStr s \<Rightarrow> s | _ \<Rightarrow> py_repr env v)"

section \<open>The handlers\<close>

text \<open>
  \<^verbatim>\<open>SERIAL_TIMEOUT\<close> is passed to \<^verbatim>\<open>serial.Serial\<close> as read and write timeout; how
  long a read or a write then blocks shows in the readings of the clock.
\<close>

definition SERIAL_TIMEOUT :: time where
  "SERIAL_TIMEOUT = 1"

definition READ_RESPONSE_DURATION :: time where
  "READ_RESPONSE_DURATION = 2"

text \<open>What a handler returns through \<^verbatim>\<open>jsonify\<close>, with the HTTP status code.\<close>

record response =
  code :: nat
  status :: pystr
  message :: pystr
  received_data :: "pystr option"

text \<open>A handler returns a response, or an exception leaves it uncaught.\<close>

datatype outcome = Returned response | Uncaught exn

definition error_response :: "nat \<Rightarrow> pystr \<Rightarrow> response" where
  "error_response c m = \<lparr>code = c, status = lit ''error'', message = m, received_data = None\<rparr>"


definition success_response :: "pystr \<Rightarrow> pystr list \<Rightarrow> response" where
  "success_response m received_data_lines =
     \<lparr>code = 200, status = lit ''success'', message = m,
      received_data = Some (join (lit [CHR 0x0A]) received_data_lines)\<rparr>"

subsection \<open>The read loop after a command (lines 62-77 and 129-141)\<close>

text \<open>
  One pass through the body of the \<^verbatim>\<open>while\<close> loop. \<^verbatim>\<open>ser.in_waiting\<close> is read
  outside the inner \<^verbatim>\<open>try\<close>: what it raises leaves the loop (\<open>Inl\<close>). Inside the
  \<^verbatim>\<open>try\<close>, \<^verbatim>\<open>UnicodeDecodeError\<close> is caught first, then every other
  \<^verbatim>\<open>Exception\<close>. \<open>phase\<close> is the word the two handlers differ in
  (\<^verbatim>\<open>command\<close>, \<^verbatim>\<open>save\<close>).
\<close>

definition drain_poll ::
  "env \<Rightarrow> pystr \<Rightarrow> world \<Rightarrow> pystr list \<Rightarrow> (exn \<times> world) + (world \<times> pystr list)" where
  "drain_poll env phase w received_data_lines =
     (let w1 = w\<lparr>n_poll := n_poll w + 1, trace := trace w @ [EvInWaiting]\<rparr> in
      case in_waiting env (n_poll w) of
        Inl e \<Rightarrow> Inl (e, w1)
      | Inr n \<Rightarrow>
          if n > 0 then
            (let w2 = w1\<lparr>n_read := n_read w1 + 1, trace := trace w1 @ [EvReadline]\<rparr> in
             case readline env (n_read w1) of
               Inr bs \<Rightarrow>
                 (let line = py_strip (decode_ascii_ignore bs) in
                  if line \<noteq> []
                  then Inr (w2, received_data_lines @ [lit ''Received: '' @ line])
                  else Inr (w2, received_data_lines))
             | Inl e \<Rightarrow>
                 if exn_cls e = UnicodeDecodeError
                 then Inr (w2, received_data_lines @
                        [lit ''Received: (Binary data - cannot decode as ASCII)''])
                 else Inr (w2, received_data_lines @
                        [lit ''Error reading during '' @ phase @ lit '': '' @ exn_text e]))
          else Inr (w1, received_data_lines))"

text \<open>
  \<^verbatim>\<open>while (time.time() - start_time) < READ_RESPONSE_DURATION\<close>: each test of the
  condition reads the clock once. The loop ends only by the clock or by an exception, so
  it need not end: \<open>None\<close> is a loop that runs forever.
\<close>

partial_function (option) drain_loop ::
  "env \<Rightarrow> pystr \<Rightarrow> time \<Rightarrow> world \<Rightarrow> pystr list \<Rightarrow>
     ((exn \<times> world) + (world \<times> pystr list)) option" where
  "drain_loop env phase start_time w received_data_lines =
     (let w0 = w\<lparr>n_time := n_time w + 1\<rparr> in
      if clock env (n_time w) - start_time < READ_RESPONSE_DURATION then
        (case drain_poll env phase w0 received_data_lines of
           Inl err \<Rightarrow> Some (Inl err)
         | Inr (w1, lines1) \<Rightarrow> drain_loop env phase start_time w1 lines1)
      else Some (Inr (w0, received_data_lines)))"

declare drain_loop.simps [code]

text \<open>\<^verbatim>\<open>start_time = time.time()\<close>, then the loop.\<close>

definition drain ::
  "env \<Rightarrow> pystr \<Rightarrow> world \<Rightarrow> pystr list \<Rightarrow> ((exn \<times> world) + (world \<times> pystr list)) option" where
  "drain env phase w received_data_lines =
     drain_loop env phase (clock env (n_time w)) (w\<lparr>n_time := n_time w + 1\<rparr>) received_data_lines"

subsection \<open>\<^verbatim>\<open>write_config\<close>\<close>

text \<open>
  \<^verbatim>\<open>for cmd in commands\<close>: a list yields its elements, a string its characters, a
  dict its keys; a number or a boolean is not iterable.
\<close>

definition py_iter :: "env \<Rightarrow> json \<Rightarrow> exn + json list" where
  "py_iter env v =
     (case v of
        JArr xs \<Rightarrow> Inr xs
      | JStr s \<Rightarrow> Inr (map (\<lambda>c. JStr [c]) s)
      | JObj kvs \<Rightarrow> Inr (map (\<lambda>kv. JStr (fst kv)) kvs)
      | _ \<Rightarrow> Inl (Exn TypeError (py_error_text env TypeError v)))"

text \<open>The line terminator \<^verbatim>\<open>'\r\n'\<close>.\<close>

definition CRLF :: pystr where
  "CRLF = [13, 10]"

text \<open>
  The body of the \<^verbatim>\<open>for\<close> loop (lines 56-77) over the remaining commands.
  \<^verbatim>\<open>cmd.strip()\<close> exists on strings only; \<^verbatim>\<open>encode('ascii')\<close> raises before
  anything is written; \<^verbatim>\<open>ser.write\<close> may raise.
\<close>

fun send_commands ::
  "env \<Rightarrow> world \<Rightarrow> json list \<Rightarrow> pystr list \<Rightarrow> ((exn \<times> world) + (world \<times> pystr list)) option" where
  "send_commands env w [] received_data_lines = Some (Inr (w, received_data_lines))"
| "send_commands env w (cmd # cmds) received_data_lines =
     (case cmd of
        JStr s \<Rightarrow>
          (case encode_ascii (py_strip s @ CRLF) of
             None \<Rightarrow> Some (Inl (Exn UnicodeEncodeError (py_error_text env UnicodeEncodeError cmd), w))
           | Some bs \<Rightarrow>
               (let w1 = w\<lparr>n_write := n_write w + 1, trace := trace w @ [EvWrite bs]\<rparr> in
                case write_result env (n_write w) of
                  Some e \<Rightarrow> Some (Inl (e, w1))
                | None \<Rightarrow>
                    (case drain env (lit ''command'') w1 received_data_lines of
                       None \<Rightarrow> None
                     | Some (Inl err) \<Rightarrow> Some (Inl err)
                     | Some (Inr (w2, lines2)) \<Rightarrow> send_commands env w2 cmds lines2)))
      | _ \<Rightarrow> Some (Inl (Exn AttributeError (py_error_text env AttributeError cmd), w)))"

text \<open>The two \<^verbatim>\<open>except\<close> clauses of \<^verbatim>\<open>write_config\<close> (lines 87-98).\<close>

definition write_config_except :: "env \<Rightarrow> json \<Rightarrow> exn \<Rightarrow> response" where
  "write_config_except env port e =
     (if exn_cls e = SerialException
      then error_response 500
             (lit ''Failed to open or communicate with serial port '' @ [39] @ py_str env port @
              [39] @ lit ''. Error: '' @ exn_text e)
      else error_response 500 (lit ''An unexpected error occurred: '' @ exn_text e))"

text \<open>
  The handler of \<^verbatim>\<open>POST /api/write_config\<close>, applied to what
  \<^verbatim>\<open>request.get_json()\<close> returned. \<^verbatim>\<open>data.get\<close> exists on a dict only, and is called
  outside the \<^verbatim>\<open>try\<close>.
\<close>

definition write_config :: "env \<Rightarrow> json \<Rightarrow> (outcome \<times> world) option" where
  "write_config env data =
     (if \<not> truthy data
      then Some (Returned (error_response 400 (lit ''No JSON data received'')), world0)
      else case data of
        JObj kvs \<Rightarrow>
          (let port = dict_get kvs (lit ''port'');
               baudrate = dict_get kvs (lit ''baudrate'');
               commands = dict_get kvs (lit ''commands'')
           in if \<not> (truthy port \<and> truthy baudrate \<and> commands \<noteq> JNull)
              then Some (Returned (error_response 400
                           (lit ''Missing port, baudrate, or commands'')), world0)
              else
                (let w1 = world0\<lparr>trace := [EvOpen port baudrate]\<rparr> in
                 case serial_open env port baudrate of
                   Some e \<Rightarrow> Some (Returned (write_config_except env port e), w1)
                 | None \<Rightarrow>
                     (case py_iter env commands of
                        Inl e \<Rightarrow> Some (Returned (write_config_except env port e), w1)
                      | Inr cmds \<Rightarrow>
                          (case send_commands env w1 cmds [] of
                             None \<Rightarrow> None
                           | Some (Inl (e, w)) \<Rightarrow>
                               Some (Returned (write_config_except env port e), w)
                           | Some (Inr (w2, received_data_lines)) \<Rightarrow>
                               Some (Returned (success_response
                                       (lit ''Configuration commands sent successfully.'')
                                       received_data_lines),
                                     w2\<lparr>trace := trace w2 @ [EvClose]\<rparr>)))))
      | _ \<Rightarrow> Some (Uncaught (Exn AttributeError (py_error_text env AttributeError data)), world0))"

subsection \<open>\<^verbatim>\<open>save_config\<close>\<close>

text \<open>
  Line 116 of \<^verbatim>\<open>app.py\<close>, in the body of \<^verbatim>\<open>save_config\<close>, character by character:
  three ideographic spaces (U+3000, code point 12288), then the text of an assignment to
  \<^verbatim>\<open>save_command\<close>.
\<close>

definition line_116 :: pystr where
  "line_116 =
     [12288, 12288, 12288] @ lit ''save_command = '' @ [34] @ lit ''SAVECONFIG'' @
     [92, 114, 92, 110, 34]"

text \<open>
  Python measures the indentation of a line in spaces, tabs and form feeds only. The
  character after them has to start a token; a character above 127 can only start an
  identifier, which no character that \<^verbatim>\<open>str.isspace\<close> accepts does, and the module is
  rejected with a \<^verbatim>\<open>SyntaxError\<close> naming the character (the wording of Python 3.9 and
  later). \<open>Inr\<close> is the rest of the line, still to be tokenized.
\<close>

definition py_indent_char :: "nat \<Rightarrow> bool" where
  "py_indent_char c \<longleftrightarrow> c = 32 \<or> c = 9 \<or> c = 12"

definition hex_digit :: "nat \<Rightarrow> nat" where
  "hex_digit d = (if d < 10 then 48 + d else 55 + d)"

definition hex4 :: "nat \<Rightarrow> pystr" where
  "hex4 c = map hex_digit [c div 4096 mod 16, c div 256 mod 16, c div 16 mod 16, c mod 16]"

definition tokenize_indent :: "pystr \<Rightarrow> exn + pystr" where
  "tokenize_indent line =
     (case dropWhile py_indent_char line of
        [] \<Rightarrow> Inr []
      | c # cs \<Rightarrow>
          if 128 \<le> c \<and> py_isspace c
          then Inl (Exn SyntaxError (lit ''invalid non-printable character U+'' @ hex4 c))
          else Inr (c # cs))"

text \<open>
  The definitions that follow are the rest of the function as it is written, lines 105-115
  and 120-162, with the value of \<^verbatim>\<open>save_command\<close> taken from the environment.
\<close>

text \<open>The two \<^verbatim>\<open>except\<close> clauses of \<^verbatim>\<open>save_config\<close> (lines 151-162).\<close>

definition save_config_except :: "env \<Rightarrow> json \<Rightarrow> exn \<Rightarrow> response" where
  "save_config_except env port e =
     (if exn_cls e = SerialException
      then error_response 500
             (lit ''Failed to open or communicate with serial port '' @ [39] @ py_str env port @
              [39] @ lit '' for saving. Error: '' @ exn_text e)
      else error_response 500 (lit ''An unexpected error occurred: '' @ exn_text e))"

text \<open>The handler of \<^verbatim>\<open>POST /api/save_config\<close>.\<close>

definition save_config :: "env \<Rightarrow> json \<Rightarrow> (outcome \<times> world) option" where
  "save_config env data =
     (if \<not> truthy data
      then Some (Returned (error_response 400 (lit ''No JSON data received'')), world0)
      else case data of
        JObj kvs \<Rightarrow>
          (let port = dict_get kvs (lit ''port'');
               baudrate = dict_get kvs (lit ''baudrate'')
           in if \<not> (truthy port \<and> truthy baudrate)
              then Some (Returned (error_response 400 (lit ''Missing port or baudrate'')), world0)
              else
                (let w1 = world0\<lparr>trace := [EvOpen port baudrate]\<rparr> in
                 case serial_open env port baudrate of
                   Some e \<Rightarrow> Some (Returned (save_config_except env port e), w1)
                 | None \<Rightarrow>
                     (case encode_ascii (save_command env) of
                        None \<Rightarrow> Some (Returned (save_config_except env port
                                   (Exn UnicodeEncodeError
                                      (py_error_text env UnicodeEncodeError
                                         (JStr (save_command env))))), w1)
                      | Some bs \<Rightarrow>
                          (let w2 = w1\<lparr>n_write := n_write w1 + 1, trace := trace w1 @ [EvWrite bs]\<rparr> in
                           case write_result env (n_write w1) of
                             Some e \<Rightarrow> Some (Returned (save_config_except env port e), w2)
                           | None \<Rightarrow>
                               (case drain env (lit ''save'') w2 [] of
                                  None \<Rightarrow> None
                                | Some (Inl (e, w)) \<Rightarrow>
                                    Some (Returned (save_config_except env port e), w)
                                | Some (Inr (w3, received_data_lines)) \<Rightarrow>
                                    Some (Returned (success_response
                                            (lit ''Configuration saved to module successfully.'')
                                            received_data_lines),
                                          w3\<lparr>trace := trace w3 @ [EvClose]\<rparr>))))))
      | _ \<Rightarrow> Some (Uncaught (Exn AttributeError (py_error_text env AttributeError data)), world0))"


section \<open>Reading the log\<close>

text \<open>The byte strings passed to \<^verbatim>\<open>ser.write\<close>, in order.\<close>

fun written :: "event list \<Rightarrow> bytes list" where
  "written [] = []"
| "written (EvWrite bs # es) = bs # written es"
| "written (e # es) = written es"

text \<open>The state in which a loop stopped, whether by an exception or normally.\<close>

definition result_world :: "(exn \<times> world) + (world \<times> pystr list) \<Rightarrow> world" where
  "result_world r = (case r of Inl (e, w) \<Rightarrow> w | Inr (w, ls) \<Rightarrow> w)"

section \<open>Scenarios\<close>

text \<open>
  A port that opens, accepts every write and never has input waiting; the clock advances
  one second between two readings, so a window holds one poll. No scenario reaches the use
  of \<^verbatim>\<open>save_command\<close>, which is left empty.
\<close>

definition idle_env :: env where
  "idle_env =
     \<lparr>serial_open = (\<lambda>port baudrate. None), clock = (\<lambda>k. of_nat k),
      write_result = (\<lambda>k. None), in_waiting = (\<lambda>k. Inr 0), readline = (\<lambda>k. Inr []),
      py_repr = (\<lambda>v. []), py_error_text = (\<lambda>c v. []), save_command = []\<rparr>"

definition usb0 :: json where
  "usb0 = JStr (lit ''/dev/ttyUSB0'')"

definition request :: "json \<Rightarrow> json \<Rightarrow> json list \<Rightarrow> json" where
  "request port baudrate cmds =
     JObj [(lit ''port'', port), (lit ''baudrate'', baudrate), (lit ''commands'', JArr cmds)]"

text \<open>\<^verbatim>\<open>serial.Serial\<close> rejects the baud rate -1 with a \<^verbatim>\<open>ValueError\<close>.\<close>

definition bad_baudrate_env :: env where
  "bad_baudrate_env =
     idle_env\<lparr>serial_open := (\<lambda>port baudrate.
        if baudrate = JNum (- 1) then Some (Exn OtherException (lit ''Not a valid baudrate: -1''))
        else None)\<rparr>"

text \<open>No port can be opened: \<^verbatim>\<open>serial.Serial\<close> raises \<^verbatim>\<open>SerialException\<close>.\<close>

definition no_port_env :: env where
  "no_port_env =
     idle_env\<lparr>serial_open := (\<lambda>port baudrate.
        Some (Exn SerialException (lit ''could not open port'')))\<rparr>"

text \<open>As \<open>idle_env\<close>, with half a second between two readings of the clock: three polls.\<close>

definition half_second_env :: env where
  "half_second_env = idle_env\<lparr>clock := (\<lambda>k. of_nat k / 2)\<rparr>"

text \<open>The same clock, and a complete line \<^verbatim>\<open>OK\<close> waiting at every poll.\<close>

definition chatty_env :: env where
  "chatty_env = half_second_env\<lparr>in_waiting := (\<lambda>k. Inr 4),
     readline := (\<lambda>k. Inr (''OK'' @ [CHR 0x0D, CHR 0x0A]))\<rparr>"

text \<open>The device is gone after the write: reading \<^verbatim>\<open>ser.in_waiting\<close> raises \<^verbatim>\<open>OSError\<close>.\<close>

definition unplugged_env :: env where
  "unplugged_env =
     idle_env\<lparr>in_waiting := (\<lambda>k. Inl (Exn OtherException (lit ''[Errno 5] Input/output error'')))\<rparr>"

text \<open>
  Input is always waiting; the first \<^verbatim>\<open>readline\<close> raises, the second returns the line
  \<^verbatim>\<open>OK\<close>, the following ones return nothing.
\<close>

definition flaky_env :: env where
  "flaky_env =
     half_second_env\<lparr>in_waiting := (\<lambda>k. Inr 4),
       readline := (\<lambda>k. if k = 0 then Inl (Exn SerialException (lit ''read failed''))
                          else if k = 1 then Inr (''OK'' @ [CHR 0x0D, CHR 0x0A])
                          else Inr [])\<rparr>"

text \<open>Every line read consists of two bytes above 127 and a line feed.\<close>

definition binary_env :: env where
  "binary_env =
     idle_env\<lparr>in_waiting := (\<lambda>k. Inr 3), readline := (\<lambda>k. Inr [CHR 0xFF, CHR 0xFE, CHR 0x0A])\<rparr>"

text \<open>The port opens, and every \<^verbatim>\<open>ser.write\<close> raises \<^verbatim>\<open>SerialTimeoutException\<close>.\<close>

definition write_timeout_env :: env where
  "write_timeout_env =
     idle_env\<lparr>write_result := (\<lambda>k. Some (Exn SerialException (lit ''Write timeout'')))\<rparr>"

text \<open>Input is waiting, and the read raises \<^verbatim>\<open>UnicodeDecodeError\<close>.\<close>

definition decode_error_env :: env where
  "decode_error_env =
     idle_env\<lparr>in_waiting := (\<lambda>k. Inr 3),
       readline := (\<lambda>k. Inl (Exn UnicodeDecodeError (lit ''invalid start byte'')))\<rparr>"

section \<open>Properties of the read loop\<close>

lemma written_append: "written (xs @ ys) = written xs @ written ys"
  by (induction xs rule: written.induct) simp_all

lemma written_polls: "set evs \<subseteq> {EvInWaiting, EvReadline} \<Longrightarrow> written evs = []"
  by (induction evs rule: written.induct) simp_all

lemma drain_poll_Inl:
  "drain_poll env phase w ls = Inl (e, w') \<Longrightarrow>
     in_waiting env (n_poll w) = Inl e \<and> w' = w\<lparr>n_poll := n_poll w + 1, trace := trace w @ [EvInWaiting]\<rparr>"
  by (auto simp: drain_poll_def Let_def split: sum.splits if_splits)

lemma drain_poll_world:
  "drain_poll env phase w ls = r \<Longrightarrow>
     \<exists>evs. trace (result_world r) = trace w @ evs \<and> set evs \<subseteq> {EvInWaiting, EvReadline} \<and>
       n_write (result_world r) = n_write w \<and> n_time (result_world r) = n_time w \<and>
       n_poll (result_world r) = n_poll w + 1"
  by (auto simp: drain_poll_def Let_def result_world_def split: sum.splits if_splits)

lemma drain_poll_Inr:
  assumes "in_waiting env (n_poll w) = Inr n"
  shows "\<exists>w'. (\<exists>evs. trace w' = trace w @ evs \<and> set evs \<subseteq> {EvInWaiting, EvReadline}) \<and>
       n_write w' = n_write w \<and> n_time w' = n_time w \<and> n_poll w' = n_poll w + 1 \<and>
       (\<forall>phase ls. \<exists>ls'. drain_poll env phase w ls = Inr (w', ls') \<and> prefix ls ls')"
proof (cases "n > 0")
  case False
  with assms show ?thesis
    by (intro exI[of _ "w\<lparr>n_poll := n_poll w + 1, trace := trace w @ [EvInWaiting]\<rparr>"])
       (simp add: drain_poll_def Let_def)
next
  case True
  with assms show ?thesis
    by (intro exI[of _ "w\<lparr>n_poll := n_poll w + 1, n_read := n_read w + 1,
                           trace := trace w @ [EvInWaiting, EvReadline]\<rparr>"])
       (auto simp: drain_poll_def Let_def split: sum.splits)
qed

lemma drain_loop_world:
  assumes "drain_loop env phase start w ls = Some r"
  shows "\<exists>evs. trace (result_world r) = trace w @ evs \<and> set evs \<subseteq> {EvInWaiting, EvReadline} \<and>
       n_write (result_world r) = n_write w"
  using assms
proof (induction env phase start w ls r rule: drain_loop.raw_induct[rotated 1, consumes 1])
  case (1 drain_loop' env phase start w ls r)
  show ?case
  proof (cases "clock env (n_time w) - start < READ_RESPONSE_DURATION")
    case False
    with 1(2) show ?thesis by (auto simp: Let_def result_world_def)
  next
    case True
    show ?thesis
    proof (cases "drain_poll env phase (w\<lparr>n_time := n_time w + 1\<rparr>) ls")
      case (Inl err)
      with True 1(2) have r: "r = Inl err" by (simp add: Let_def)
      from drain_poll_world[OF Inl] r show ?thesis by auto
    next
      case (Inr p)
      obtain w1 ls1 where p: "p = (w1, ls1)" by (cases p)
      from True 1(2) Inr p have "drain_loop' env phase start w1 ls1 = Some r" 
        by (simp add: Let_def)
      from 1(1)[OF this] obtain evs2 where e2: "trace (result_world r) = trace w1 @ evs2" 
        "set evs2 \<subseteq> {EvInWaiting, EvReadline}" "n_write (result_world r) = n_write w1" by blast
      from drain_poll_world[OF Inr] p obtain evs1 where e1: "trace w1 = trace w @ evs1"
        "set evs1 \<subseteq> {EvInWaiting, EvReadline}" "n_write w1 = n_write w"
        by (auto simp: result_world_def)
      from e1 e2 show ?thesis by (intro exI[of _ "evs1 @ evs2"]) simp
    qed
  qed
qed


lemma drain_loop_window:
  assumes "\<forall>i<m. clock env (n_time w + i) - start < READ_RESPONSE_DURATION"
      and "\<not> clock env (n_time w + m) - start < READ_RESPONSE_DURATION"
      and "\<forall>i<m. \<exists>n. in_waiting env (n_poll w + i) = Inr n"
  shows "\<exists>w'. n_time w' = n_time w + m + 1 \<and> n_poll w' = n_poll w + m \<and> n_write w' = n_write w \<and>
           (\<exists>evs. trace w' = trace w @ evs \<and> set evs \<subseteq> {EvInWaiting, EvReadline}) \<and>
           (\<forall>phase ls. \<exists>ls'. drain_loop env phase start w ls = Some (Inr (w', ls')) \<and> prefix ls ls')"
  using assms
proof (induction m arbitrary: w)
  case 0
  then have "\<forall>phase ls. drain_loop env phase start w ls = Some (Inr (w\<lparr>n_time := n_time w + 1\<rparr>, ls))"
    by (subst drain_loop.simps) (simp add: Let_def)
  then show ?case
    by (intro exI[of _ "w\<lparr>n_time := n_time w + 1\<rparr>"]) simp
next
  case (Suc m)
  let ?w0 = "w\<lparr>n_time := n_time w + 1\<rparr>"
  from Suc.prems(1)[rule_format, of 0] have now: "clock env (n_time w) - start < READ_RESPONSE_DURATION"
    by simp
  from Suc.prems(3)[rule_format, of 0] obtain n where "in_waiting env (n_poll ?w0) = Inr n"
    by auto
  from drain_poll_Inr[OF this] obtain w1 evs1 where w1:
    "trace w1 = trace w @ evs1" "set evs1 \<subseteq> {EvInWaiting, EvReadline}"
    "n_write w1 = n_write w" "n_time w1 = n_time w + 1" "n_poll w1 = n_poll w + 1"
    "\<And>phase ls. \<exists>ls'. drain_poll env phase ?w0 ls = Inr (w1, ls') \<and> prefix ls ls'"
    by auto
  have "\<forall>i<m. clock env (n_time w1 + i) - start < READ_RESPONSE_DURATION"
  proof (intro allI impI)
    fix i assume "i < m"
    with Suc.prems(1)[rule_format, of "Suc i"] w1(4) show "clock env (n_time w1 + i) - start < READ_RESPONSE_DURATION"
      by simp
  qed
  moreover have "\<not> clock env (n_time w1 + m) - start < READ_RESPONSE_DURATION"
    using Suc.prems(2) w1(4) by simp
  moreover have "\<forall>i<m. \<exists>n. in_waiting env (n_poll w1 + i) = Inr n"
  proof (intro allI impI)
    fix i assume "i < m"
    with Suc.prems(3)[rule_format, of "Suc i"] w1(5) show "\<exists>n. in_waiting env (n_poll w1 + i) = Inr n"
      by simp
  qed
  ultimately obtain w' evs2 where w':
    "n_time w' = n_time w1 + m + 1" "n_poll w' = n_poll w1 + m" "n_write w' = n_write w1"
    "trace w' = trace w1 @ evs2" "set evs2 \<subseteq> {EvInWaiting, EvReadline}"
    "\<And>phase ls. \<exists>ls'. drain_loop env phase start w1 ls = Some (Inr (w', ls')) \<and> prefix ls ls'"
    using Suc.IH[of w1] by blast
  have "\<exists>ls'. drain_loop env phase start w ls = Some (Inr (w', ls')) \<and> prefix ls ls'" for phase ls
  proof -
    from w1(6) obtain ls1 where ls1: "drain_poll env phase ?w0 ls = Inr (w1, ls1)" "prefix ls ls1"
      by blast
    from w'(6) obtain ls' where ls': "drain_loop env phase start w1 ls1 = Some (Inr (w', ls'))"
      "prefix ls1 ls'" by blast
    have "drain_loop env phase start w ls = drain_loop env phase start w1 ls1"
      using now ls1(1) by (subst drain_loop.simps) (simp add: Let_def)
    with ls' ls1(2) show ?thesis by (metis prefix_order.order_trans)
  qed
  moreover have "trace w' = trace w @ (evs1 @ evs2)" "set (evs1 @ evs2) \<subseteq> {EvInWaiting, EvReadline}"
    using w1 w' by simp_all
  moreover have "n_time w' = n_time w + Suc m + 1" "n_poll w' = n_poll w + Suc m" "n_write w' = n_write w"
    using w1 w' by simp_all
  ultimately show ?case
    by blast
qed

lemma truthy_data: "truthy (dict_get kvs k) \<Longrightarrow> truthy (JObj kvs)"
  by (cases kvs) (simp_all add: dict_get_def)

section \<open>Validation of the request body\<close>

text \<open>
  C7. A \<^verbatim>\<open>write_config\<close> body that is absent (\<^verbatim>\<open>get_json()\<close> gave \<^verbatim>\<open>None\<close>), or a dict
  in which \<^verbatim>\<open>port\<close>, \<^verbatim>\<open>baudrate\<close> or \<^verbatim>\<open>commands\<close> is missing or null, is answered
  with HTTP 400, status \<^verbatim>\<open>error\<close> and one of the two descriptive messages, and
  \<^verbatim>\<open>serial.Serial\<close> is never called: the log of port calls is empty.
\<close>

theorem write_config_missing_field:
  assumes "data = JNull \<or> (\<exists>kvs. data = JObj kvs \<and>
             (dict_get kvs (lit ''port'') = JNull \<or> dict_get kvs (lit ''baudrate'') = JNull \<or>
              dict_get kvs (lit ''commands'') = JNull))"
  shows "\<exists>m. write_config env data =
           Some (Returned \<lparr>code = 400, status = lit ''error'', message = m, received_data = None\<rparr>,
                 world0) \<and>
           (m = lit ''No JSON data received'' \<or> m = lit ''Missing port, baudrate, or commands'') \<and>
           trace world0 = []"
  using assms
  by (auto simp: write_config_def error_response_def world0_def Let_def)

theorem write_config_missing_field_witness:
  "write_config idle_env (JObj [(lit ''port'', usb0)]) =
     Some (Returned \<lparr>code = 400, status = lit ''error'',
                     message = lit ''Missing port, baudrate, or commands'', received_data = None\<rparr>,
           world0)"
proof -
  have h: "JObj [(lit ''port'', usb0)] = JNull \<or> (\<exists>kvs. JObj [(lit ''port'', usb0)] = JObj kvs \<and>
             (dict_get kvs (lit ''port'') = JNull \<or> dict_get kvs (lit ''baudrate'') = JNull \<or>
              dict_get kvs (lit ''commands'') = JNull))"
    by (simp add: dict_get_def lit_def)
  have "lit ''Missing port, baudrate, or commands'' \<noteq> lit ''No JSON data received''"
    by (simp add: lit_def)
  moreover have "write_config idle_env (JObj [(lit ''port'', usb0)]) \<noteq>
     Some (Returned \<lparr>code = 400, status = lit ''error'',
                     message = lit ''No JSON data received'', received_data = None\<rparr>, world0)"
    by (simp add: write_config_def dict_get_def lit_def error_response_def usb0_def)
  ultimately show ?thesis
    using write_config_missing_field[OF h, of idle_env] by auto
qed

section \<open>An empty command list\<close>

text \<open>
  C9. A valid request whose \<^verbatim>\<open>commands\<close> is the empty list, on a port that opens, returns
  success with \<^verbatim>\<open>received_data\<close> the empty string; the port calls are the open and the
  close, with no write, no \<^verbatim>\<open>in_waiting\<close> and no \<^verbatim>\<open>readline\<close> between them, and the
  clock is never read.
\<close>

theorem write_config_empty_commands:
  assumes "data = JObj kvs"
      and "truthy (dict_get kvs (lit ''port''))"
      and "truthy (dict_get kvs (lit ''baudrate''))"
      and "dict_get kvs (lit ''commands'') = JArr []"
      and "serial_open env (dict_get kvs (lit ''port'')) (dict_get kvs (lit ''baudrate'')) = None"
  shows "write_config env data =
           Some (Returned \<lparr>code = 200, status = lit ''success'',
                           message = lit ''Configuration commands sent successfully.'',
                           received_data = Some []\<rparr>,
                 world0\<lparr>trace := [EvOpen (dict_get kvs (lit ''port'')) (dict_get kvs (lit ''baudrate'')),
                                  EvClose]\<rparr>)"
  using assms truthy_data[OF assms(2)]
  by (simp add: write_config_def Let_def py_iter_def success_response_def)

theorem write_config_empty_commands_witness:
  "write_config idle_env (request usb0 (JNum 115200) []) =
     Some (Returned \<lparr>code = 200, status = lit ''success'',
                     message = lit ''Configuration commands sent successfully.'',
                     received_data = Some []\<rparr>,
           world0\<lparr>trace := [EvOpen usb0 (JNum 115200), EvClose]\<rparr>)"
  using write_config_empty_commands[of "request usb0 (JNum 115200) []"
          "[(lit ''port'', usb0), (lit ''baudrate'', JNum 115200), (lit ''commands'', JArr [])]" idle_env]
  by (simp add: request_def dict_get_def lit_def usb0_def idle_env_def)

text \<open>
  C10. Validation tests truthiness, not presence. A body in which \<^verbatim>\<open>port\<close> is present
  and is the empty string, or \<^verbatim>\<open>baudrate\<close> is present and is 0, is answered with the 400
  of a missing field by both handlers. With a truthy port and baud rate, an empty
  \<^verbatim>\<open>commands\<close> list passes validation (the handler goes on to call \<^verbatim>\<open>serial.Serial\<close>
  and does not answer 400), and only a missing or null \<^verbatim>\<open>commands\<close> is rejected.
\<close>

theorem validation_by_truthiness:
  "(map_of kvs (lit ''port'') = Some (JStr []) \<or> map_of kvs (lit ''baudrate'') = Some (JNum 0) \<longrightarrow>
      write_config env (JObj kvs) =
        Some (Returned (error_response 400 (lit ''Missing port, baudrate, or commands'')), world0) \<and>
      save_config env (JObj kvs) =
        Some (Returned (error_response 400 (lit ''Missing port or baudrate'')), world0)) \<and>
   (truthy (dict_get kvs (lit ''port'')) \<and> truthy (dict_get kvs (lit ''baudrate'')) \<longrightarrow>
      (dict_get kvs (lit ''commands'') = JArr [] \<longrightarrow>
         (\<exists>r w. write_config env (JObj kvs) = Some (Returned r, w) \<and> code r \<noteq> 400 \<and>
            hd (trace w) = EvOpen (dict_get kvs (lit ''port'')) (dict_get kvs (lit ''baudrate'')))) \<and>
      (dict_get kvs (lit ''commands'') = JNull \<longrightarrow>
         write_config env (JObj kvs) =
           Some (Returned (error_response 400 (lit ''Missing port, baudrate, or commands'')), world0)))"
proof (intro conjI impI)
  assume a: "map_of kvs (lit ''port'') = Some (JStr []) \<or> map_of kvs (lit ''baudrate'') = Some (JNum 0)"
  then have ne: "kvs \<noteq> []" by auto
  from a have f: "\<not> truthy (dict_get kvs (lit ''port'')) \<or> \<not> truthy (dict_get kvs (lit ''baudrate''))"
    by (auto simp: dict_get_def)
  from ne f show "write_config env (JObj kvs) =
        Some (Returned (error_response 400 (lit ''Missing port, baudrate, or commands'')), world0)"
    by (auto simp: write_config_def Let_def)
  from ne f show "save_config env (JObj kvs) =
        Some (Returned (error_response 400 (lit ''Missing port or baudrate'')), world0)"
    by (auto simp: save_config_def Let_def)
next
  assume t: "truthy (dict_get kvs (lit ''port'')) \<and> truthy (dict_get kvs (lit ''baudrate''))"
     and c: "dict_get kvs (lit ''commands'') = JArr []"
  from t have "truthy (JObj kvs)" by (blast intro: truthy_data)
  with t c show "\<exists>r w. write_config env (JObj kvs) = Some (Returned r, w) \<and> code r \<noteq> 400 \<and>
            hd (trace w) = EvOpen (dict_get kvs (lit ''port'')) (dict_get kvs (lit ''baudrate''))"
    by (cases "serial_open env (dict_get kvs (lit ''port'')) (dict_get kvs (lit ''baudrate''))")
       (simp_all add: write_config_def Let_def py_iter_def success_response_def
          write_config_except_def error_response_def world0_def)
next
  assume t: "truthy (dict_get kvs (lit ''port'')) \<and> truthy (dict_get kvs (lit ''baudrate''))"
     and c: "dict_get kvs (lit ''commands'') = JNull"
  from t have "truthy (JObj kvs)" by (blast intro: truthy_data)
  with t c show "write_config env (JObj kvs) =
           Some (Returned (error_response 400 (lit ''Missing port, baudrate, or commands'')), world0)"
    by (simp add: write_config_def Let_def)
qed

theorem validation_by_truthiness_witness:
  "write_config idle_env (request (JStr []) (JNum 115200) []) =
     Some (Returned (error_response 400 (lit ''Missing port, baudrate, or commands'')), world0) \<and>
   save_config idle_env (request usb0 (JNum 0) []) =
     Some (Returned (error_response 400 (lit ''Missing port or baudrate'')), world0) \<and>
   (\<exists>r w. write_config idle_env (request usb0 (JNum 115200) []) = Some (Returned r, w) \<and>
      code r \<noteq> 400 \<and> hd (trace w) = EvOpen usb0 (JNum 115200)) \<and>
   write_config idle_env (JObj [(lit ''port'', usb0), (lit ''baudrate'', JNum 115200)]) =
     Some (Returned (error_response 400 (lit ''Missing port, baudrate, or commands'')), world0)"
  using validation_by_truthiness[of "[(lit ''port'', JStr []), (lit ''baudrate'', JNum 115200), (lit ''commands'', JArr [])]" idle_env]
    validation_by_truthiness[of "[(lit ''port'', usb0), (lit ''baudrate'', JNum 0), (lit ''commands'', JArr [])]" idle_env]
    validation_by_truthiness[of "[(lit ''port'', usb0), (lit ''baudrate'', JNum 115200), (lit ''commands'', JArr [])]" idle_env]
    validation_by_truthiness[of "[(lit ''port'', usb0), (lit ''baudrate'', JNum 115200)]" idle_env]
  by (simp add: request_def dict_get_def lit_def usb0_def)

section \<open>Failure to open the port\<close>

text \<open>
  C8, as stated, fails: \<^verbatim>\<open>serial.Serial\<close> raising anything that is not a
  \<^verbatim>\<open>SerialException\<close> (here the \<^verbatim>\<open>ValueError\<close> of a negative baud rate) is caught by
  the second \<^verbatim>\<open>except\<close> clause, whose message does not name the port.
\<close>

theorem open_failure_counterexample:
  "write_config bad_baudrate_env (request usb0 (JNum (- 1)) []) =
     Some (Returned (error_response 500
             (lit ''An unexpected error occurred: Not a valid baudrate: -1'')),
           world0\<lparr>trace := [EvOpen usb0 (JNum (- 1))]\<rparr>) \<and>
   \<not> sublist (lit ''/dev/ttyUSB0'')
        (lit ''An unexpected error occurred: Not a valid baudrate: -1'')"
proof
  show "write_config bad_baudrate_env (request usb0 (JNum (- 1)) []) =
     Some (Returned (error_response 500
             (lit ''An unexpected error occurred: Not a valid baudrate: -1'')),
           world0\<lparr>trace := [EvOpen usb0 (JNum (- 1))]\<rparr>)"
    by (simp add: write_config_def request_def dict_get_def lit_def usb0_def bad_baudrate_env_def
          idle_env_def write_config_except_def)
  show "\<not> sublist (lit ''/dev/ttyUSB0'')
        (lit ''An unexpected error occurred: Not a valid baudrate: -1'')"
  proof
    assume "sublist (lit ''/dev/ttyUSB0'')
        (lit ''An unexpected error occurred: Not a valid baudrate: -1'')"
    then have "set (lit ''/dev/ttyUSB0'') \<subseteq>
        set (lit ''An unexpected error occurred: Not a valid baudrate: -1'')"
      by (rule set_mono_sublist)
    then show False by (simp add: lit_def)
  qed
qed

text \<open>
  C8, amended. When \<^verbatim>\<open>serial.Serial\<close> raises, both handlers return at once with HTTP 500
  and status \<^verbatim>\<open>error\<close>; the only port call logged is the open, so nothing is written. The
  message contains the port name when the exception is a \<^verbatim>\<open>SerialException\<close>; for any
  other exception it is \<^verbatim>\<open>An unexpected error occurred: \<close> followed by the exception text.
\<close>

theorem open_failure:
  assumes "truthy (dict_get kvs (lit ''port''))"
      and "truthy (dict_get kvs (lit ''baudrate''))"
      and "serial_open env (dict_get kvs (lit ''port'')) (dict_get kvs (lit ''baudrate'')) = Some e"
  shows "(dict_get kvs (lit ''commands'') \<noteq> JNull \<longrightarrow>
           (\<exists>m. write_config env (JObj kvs) =
                  Some (Returned (error_response 500 m),
                        world0\<lparr>trace := [EvOpen (dict_get kvs (lit ''port''))
                                                 (dict_get kvs (lit ''baudrate''))]\<rparr>) \<and>
                (if exn_cls e = SerialException
                 then sublist (py_str env (dict_get kvs (lit ''port''))) m
                 else m = lit ''An unexpected error occurred: '' @ exn_text e))) \<and>
         (\<exists>m. save_config env (JObj kvs) =
                  Some (Returned (error_response 500 m),
                        world0\<lparr>trace := [EvOpen (dict_get kvs (lit ''port''))
                                                 (dict_get kvs (lit ''baudrate''))]\<rparr>) \<and>
                (if exn_cls e = SerialException
                 then sublist (py_str env (dict_get kvs (lit ''port''))) m
                 else m = lit ''An unexpected error occurred: '' @ exn_text e))"
proof -
  have sub: "sublist p (a @ [39] @ p @ [39] @ b)" for p a b :: pystr
    by (metis append.assoc sublist_appendI)
  from assms(1) have "truthy (JObj kvs)" by (rule truthy_data)
  with assms sub show ?thesis
    by (simp add: write_config_def save_config_def Let_def write_config_except_def
          save_config_except_def) blast
qed

theorem open_failure_witness:
  "(\<exists>m. write_config no_port_env (request usb0 (JNum 115200) []) =
          Some (Returned (error_response 500 m), world0\<lparr>trace := [EvOpen usb0 (JNum 115200)]\<rparr>) \<and>
        sublist (lit ''/dev/ttyUSB0'') m) \<and>
   (\<exists>m. save_config no_port_env (request usb0 (JNum 115200) []) =
          Some (Returned (error_response 500 m), world0\<lparr>trace := [EvOpen usb0 (JNum 115200)]\<rparr>) \<and>
        sublist (lit ''/dev/ttyUSB0'') m)"
  using open_failure[of "[(lit ''port'', usb0), (lit ''baudrate'', JNum 115200), (lit ''commands'', JArr [])]"
          no_port_env "Exn SerialException (lit ''could not open port'')"]
  by (simp add: request_def dict_get_def lit_def usb0_def no_port_env_def py_str_def)

section \<open>What is written to the port\<close>

lemma drain_world:
  assumes "drain env phase w ls = Some r"
  shows "\<exists>evs. trace (result_world r) = trace w @ evs \<and> set evs \<subseteq> {EvInWaiting, EvReadline} \<and>
           n_write (result_world r) = n_write w"
  using drain_loop_world[OF assms[unfolded drain_def]] by simp

lemma send_commands_written:
  assumes "send_commands env w cmds ls = Some r"
  shows "\<exists>bss. written (trace (result_world r)) = written (trace w) @ bss \<and>
           length bss \<le> length cmds \<and>
           (\<forall>i<length bss. \<exists>s. cmds ! i = JStr s \<and> encode_ascii (py_strip s @ CRLF) = Some (bss ! i)) \<and>
           (\<not> isl r \<longrightarrow> length bss = length cmds)"
  using assms
proof (induction cmds arbitrary: w ls)
  case Nil
  then show ?case by (auto simp: result_world_def)
next
  case (Cons cmd cmds)
  show ?case
  proof (cases cmd)
    case (JStr s)
    show ?thesis
    proof (cases "encode_ascii (py_strip s @ CRLF)")
      case None
      with Cons.prems JStr have "r = Inl (Exn UnicodeEncodeError (py_error_text env UnicodeEncodeError cmd), w)"
        by simp
      then show ?thesis by (intro exI[of _ "[]"]) (simp add: result_world_def)
    next
      case (Some bs)
      let ?w1 = "w\<lparr>n_write := n_write w + 1, trace := trace w @ [EvWrite bs]\<rparr>"
      have w1: "written (trace ?w1) = written (trace w) @ [bs]"
        by (simp add: written_append)
      show ?thesis
      proof (cases "write_result env (n_write w)")
        case (Some e)
        with Cons.prems JStr \<open>encode_ascii (py_strip s @ CRLF) = Some bs\<close>
        have "r = Inl (e, ?w1)" by (simp add: Let_def)
        with w1 JStr \<open>encode_ascii (py_strip s @ CRLF) = Some bs\<close> show ?thesis
          by (intro exI[of _ "[bs]"]) (simp add: result_world_def)
      next
        case None
        note wr = None
        show ?thesis
        proof (cases "drain env (lit ''command'') ?w1 ls")
          case None
          with Cons.prems JStr \<open>encode_ascii (py_strip s @ CRLF) = Some bs\<close> wr
          show ?thesis by (simp add: Let_def)
        next
          case (Some d)
          from drain_world[OF Some] obtain evs where evs:
            "trace (result_world d) = trace ?w1 @ evs" "set evs \<subseteq> {EvInWaiting, EvReadline}"
            by blast
          then have wd: "written (trace (result_world d)) = written (trace w) @ [bs]"
            using w1 by (simp add: written_append written_polls)
          show ?thesis
          proof (cases d)
            case (Inl err)
            with Cons.prems JStr \<open>encode_ascii (py_strip s @ CRLF) = Some bs\<close> wr Some
            have "r = d" by (simp add: Let_def)
            with wd Inl JStr \<open>encode_ascii (py_strip s @ CRLF) = Some bs\<close> show ?thesis
              by (intro exI[of _ "[bs]"]) simp
          next
            case (Inr p)
            obtain w2 ls2 where p: "p = (w2, ls2)" by (cases p)
            with Cons.prems JStr \<open>encode_ascii (py_strip s @ CRLF) = Some bs\<close> wr Some Inr
            have "send_commands env w2 cmds ls2 = Some r" by (simp add: Let_def)
            from Cons.IH[OF this] obtain bss where bss:
              "written (trace (result_world r)) = written (trace w2) @ bss"
              "length bss \<le> length cmds"
              "\<forall>i<length bss. \<exists>s. cmds ! i = JStr s \<and> encode_ascii (py_strip s @ CRLF) = Some (bss ! i)"
              "\<not> isl r \<longrightarrow> length bss = length cmds" by blast
            from wd Inr p have "written (trace w2) = written (trace w) @ [bs]"
              by (simp add: result_world_def)
            with bss(1) have 1: "written (trace (result_world r)) = written (trace w) @ (bs # bss)"
              by simp
            have 2: "\<forall>i<length (bs # bss). \<exists>s. (cmd # cmds) ! i = JStr s \<and>
                       encode_ascii (py_strip s @ CRLF) = Some ((bs # bss) ! i)"
            proof (intro allI impI)
              fix i assume "i < length (bs # bss)"
              then show "\<exists>s. (cmd # cmds) ! i = JStr s \<and>
                       encode_ascii (py_strip s @ CRLF) = Some ((bs # bss) ! i)"
                using bss(3) JStr \<open>encode_ascii (py_strip s @ CRLF) = Some bs\<close>
                by (cases i) simp_all
            qed
            from 1 2 bss(2,4) show ?thesis
              by (intro exI[of _ "bs # bss"]) simp
          qed
        qed
      qed
    qed
  qed (use Cons.prems in \<open>auto simp: result_world_def intro!: exI[of _ "[]"]\<close>)
qed


lemma except_code:
  "code (write_config_except env port e) = 500" "code (save_config_except env port e) = 500"
  by (simp_all add: write_config_except_def save_config_except_def error_response_def)

text \<open>
  C5. Whenever \<^verbatim>\<open>write_config\<close> returns, the i-th byte string passed to \<^verbatim>\<open>ser.write\<close>
  is the ASCII encoding of the i-th command with surrounding whitespace stripped, followed
  by carriage return and line feed. No more strings are written than there are commands,
  and in a response with code 200 every command was written.
\<close>

theorem transmitted_bytes:
  assumes "write_config env (JObj kvs) = Some (out, w)"
      and "py_iter env (dict_get kvs (lit ''commands'')) = Inr cmds"
  shows "length (written (trace w)) \<le> length cmds \<and>
         (\<forall>i<length (written (trace w)). \<exists>s. cmds ! i = JStr s \<and>
            encode_ascii (py_strip s @ CRLF) = Some (written (trace w) ! i)) \<and>
         ((\<exists>r. out = Returned r \<and> code r = 200) \<longrightarrow> length (written (trace w)) = length cmds)"
proof -
  let ?port = "dict_get kvs (lit ''port'')" and ?baud = "dict_get kvs (lit ''baudrate'')"
  let ?w1 = "world0\<lparr>trace := [EvOpen ?port ?baud]\<rparr>"
  consider (early) "written (trace w) = []" "\<forall>r. out = Returned r \<longrightarrow> code r \<noteq> 200"
    | (sent) r where "send_commands env ?w1 cmds [] = Some r" "written (trace w) = written (trace (result_world r))"
        "isl r \<longrightarrow> (\<forall>r'. out = Returned r' \<longrightarrow> code r' \<noteq> 200)"
  proof (cases "truthy (JObj kvs) \<and> truthy ?port \<and> truthy ?baud \<and> dict_get kvs (lit ''commands'') \<noteq> JNull")
    case False
    with assms(1) have "w = world0 \<and> (\<forall>r. out = Returned r \<longrightarrow> code r = 400)"
      by (auto simp: write_config_def Let_def error_response_def split: if_splits)
    then show ?thesis using early by (simp add: world0_def)
  next
    case valid: True
    show ?thesis
    proof (cases "serial_open env ?port ?baud")
      case (Some e)
      with assms(1) valid have "w = ?w1 \<and> out = Returned (write_config_except env ?port e)"
        by (auto simp: write_config_def Let_def)
      then show ?thesis using early by (auto simp: world0_def except_code)
    next
      case None
      show ?thesis
      proof (cases "send_commands env ?w1 cmds []")
        case None
        with assms valid \<open>serial_open env ?port ?baud = None\<close> show ?thesis
          by (simp add: write_config_def Let_def)
      next
        case (Some r)
        show ?thesis
        proof (cases r)
          case (Inl p)
          obtain e w' where "p = (e, w')" by (cases p)
          with Inl Some assms valid \<open>serial_open env ?port ?baud = None\<close>
          have "w = w' \<and> out = Returned (write_config_except env ?port e)"
            by (simp add: write_config_def Let_def)
          with Inl \<open>p = (e, w')\<close> Some show ?thesis
            using sent[of r] by (auto simp: result_world_def except_code)
        next
          case (Inr p)
          obtain w2 ls where "p = (w2, ls)" by (cases p)
          with Inr Some assms valid \<open>serial_open env ?port ?baud = None\<close>
          have "w = w2\<lparr>trace := trace w2 @ [EvClose]\<rparr>"
            by (simp add: write_config_def Let_def)
          with Inr \<open>p = (w2, ls)\<close> Some show ?thesis
            using sent[of r] by (auto simp: result_world_def written_append)
        qed
      qed
    qed
  qed
  then show ?thesis
  proof cases
    case early
    then show ?thesis by auto
  next
    case (sent r)
    from send_commands_written[OF sent(1)] sent(2,3) show ?thesis
      by (auto simp: world0_def)
  qed
qed

theorem transmitted_bytes_witness:
  "written (trace (snd (the (write_config idle_env (request usb0 (JNum 115200) [JStr (lit '' MODE ROVER  '')]))))) =
     [''MODE ROVER'' @ [CHR 0x0D, CHR 0x0A]] \<and>
   encode_ascii (py_strip (lit '' MODE ROVER  '') @ CRLF) = Some (''MODE ROVER'' @ [CHR 0x0D, CHR 0x0A])"
proof -
  have run: "write_config idle_env (JObj [(lit ''port'', usb0), (lit ''baudrate'', JNum 115200), (lit ''commands'', JArr [JStr (lit '' MODE ROVER  '')])]) =
     Some (Returned (success_response (lit ''Configuration commands sent successfully.'') []),
           \<lparr>n_time = 3, n_write = 1, n_poll = 1, n_read = 0,
            trace = [EvOpen usb0 (JNum 115200), EvWrite (''MODE ROVER'' @ [CHR 0x0D, CHR 0x0A]),
                     EvInWaiting, EvClose]\<rparr>)"
    by code_simp
  have it: "py_iter idle_env (dict_get [(lit ''port'', usb0), (lit ''baudrate'', JNum 115200), (lit ''commands'', JArr [JStr (lit '' MODE ROVER  '')])] (lit ''commands'')) = Inr [JStr (lit '' MODE ROVER  '')]"
    by (simp add: py_iter_def dict_get_def lit_def)
  from transmitted_bytes[OF run it] run show ?thesis
    by (simp add: request_def)
qed

section \<open>The length of the window\<close>

lemma drain_poll_prefix:
  "drain_poll env phase w ls = Inr (w', ls') \<Longrightarrow> prefix ls ls'"
  by (auto simp: drain_poll_def Let_def split: sum.splits if_splits)

lemma drain_loop_prefix:
  assumes "drain_loop env phase start w ls = Some r"
  shows "\<forall>w' ls'. r = Inr (w', ls') \<longrightarrow> prefix ls ls'"
  using assms
proof (induction env phase start w ls r rule: drain_loop.raw_induct[rotated 1, consumes 1])
  case (1 drain_loop' env phase start w ls r)
  show ?case
  proof (cases "clock env (n_time w) - start < READ_RESPONSE_DURATION")
    case False
    with 1(2) show ?thesis by (auto simp: Let_def)
  next
    case True
    show ?thesis
    proof (cases "drain_poll env phase (w\<lparr>n_time := n_time w + 1\<rparr>) ls")
      case (Inl err)
      with True 1(2) show ?thesis by (auto simp: Let_def)
    next
      case (Inr p)
      obtain w1 ls1 where p: "p = (w1, ls1)" by (cases p)
      from True 1(2) Inr p have "drain_loop' env phase start w1 ls1 = Some r"
        by (simp add: Let_def)
      from 1(1)[OF this] drain_poll_prefix[OF Inr[unfolded p]] show ?thesis
        by (auto intro: prefix_order.order_trans)
    qed
  qed
qed

lemma drain_window:
  assumes "\<forall>i<m. clock env (n_time w + 1 + i) - clock env (n_time w) < READ_RESPONSE_DURATION"
      and "READ_RESPONSE_DURATION \<le> clock env (n_time w + 1 + m) - clock env (n_time w)"
      and "\<forall>i<m. \<exists>n. in_waiting env (n_poll w + i) = Inr n"
  shows "\<exists>w'. n_time w' = n_time w + m + 2 \<and> n_poll w' = n_poll w + m \<and> n_write w' = n_write w \<and>
           (\<exists>evs. trace w' = trace w @ evs \<and> set evs \<subseteq> {EvInWaiting, EvReadline}) \<and>
           (\<forall>phase ls. \<exists>ls'. drain env phase w ls = Some (Inr (w', ls')) \<and> prefix ls ls')"
proof -
  let ?w0 = "w\<lparr>n_time := n_time w + 1\<rparr>"
  have "\<forall>i<m. clock env (n_time ?w0 + i) - clock env (n_time w) < READ_RESPONSE_DURATION"
    using assms(1) by simp
  moreover have "\<not> clock env (n_time ?w0 + m) - clock env (n_time w) < READ_RESPONSE_DURATION"
    using assms(2) by simp
  moreover have "\<forall>i<m. \<exists>n. in_waiting env (n_poll ?w0 + i) = Inr n"
    using assms(3) by simp
  ultimately show ?thesis
    using drain_loop_window[of m env ?w0 "clock env (n_time w)"] by (simp add: drain_def)
qed

text \<open>
  C4. A window opened at clock reading \<open>n_time w\<close> tests the loop condition at the readings
  that follow. If the first \<open>m\<close> of them are less than \<open>READ_RESPONSE_DURATION\<close> after the
  start and the next one is not, the loop returns at that test and at no earlier one: it
  has read the clock \<open>m + 2\<close> times and polled \<open>m\<close> times. Nothing is assumed about how many
  bytes \<^verbatim>\<open>in_waiting\<close> reports or what \<^verbatim>\<open>readline\<close> returns or raises, only that
  \<^verbatim>\<open>in_waiting\<close> itself does not raise.
\<close>

theorem drain_returns_when_window_elapses:
  assumes "\<forall>i<m. clock env (n_time w + 1 + i) - clock env (n_time w) < READ_RESPONSE_DURATION"
      and "READ_RESPONSE_DURATION \<le> clock env (n_time w + 1 + m) - clock env (n_time w)"
      and "\<forall>i<m. \<exists>n. in_waiting env (n_poll w + i) = Inr n"
  shows "\<exists>w' ls'. drain env phase w ls = Some (Inr (w', ls')) \<and>
           n_time w' = n_time w + m + 2 \<and> n_poll w' = n_poll w + m"
  using drain_window[OF assms] by blast

theorem drain_returns_when_window_elapses_witness:
  "drain half_second_env (lit ''command'') world0 [] =
     Some (Inr (\<lparr>n_time = 5, n_write = 0, n_poll = 3, n_read = 0,
                 trace = [EvInWaiting, EvInWaiting, EvInWaiting]\<rparr>, [])) \<and>
   drain chatty_env (lit ''command'') world0 [] =
     Some (Inr (\<lparr>n_time = 5, n_write = 0, n_poll = 3, n_read = 3,
                 trace = [EvInWaiting, EvReadline, EvInWaiting, EvReadline, EvInWaiting, EvReadline]\<rparr>,
                [lit ''Received: OK'', lit ''Received: OK'', lit ''Received: OK'']))"
proof -
  have a: "\<forall>i<3. clock half_second_env (n_time world0 + 1 + i) - clock half_second_env (n_time world0)
             < READ_RESPONSE_DURATION"
    by (simp add: half_second_env_def idle_env_def world0_def READ_RESPONSE_DURATION_def)
  have b: "READ_RESPONSE_DURATION \<le>
             clock half_second_env (n_time world0 + 1 + 3) - clock half_second_env (n_time world0)"
    by (simp add: half_second_env_def idle_env_def world0_def READ_RESPONSE_DURATION_def)
  have c: "\<forall>i<3. \<exists>n. in_waiting half_second_env (n_poll world0 + i) = Inr n"
    by (simp add: half_second_env_def idle_env_def)
  have a': "\<forall>i<3. clock chatty_env (n_time world0 + 1 + i) - clock chatty_env (n_time world0)
             < READ_RESPONSE_DURATION"
    by (simp add: chatty_env_def half_second_env_def idle_env_def world0_def READ_RESPONSE_DURATION_def)
  have b': "READ_RESPONSE_DURATION \<le>
             clock chatty_env (n_time world0 + 1 + 3) - clock chatty_env (n_time world0)"
    by (simp add: chatty_env_def half_second_env_def idle_env_def world0_def READ_RESPONSE_DURATION_def)
  have c': "\<forall>i<3. \<exists>n. in_waiting chatty_env (n_poll world0 + i) = Inr n"
    by (simp add: chatty_env_def half_second_env_def idle_env_def)
  have r1: "drain half_second_env (lit ''command'') world0 [] =
     Some (Inr (\<lparr>n_time = 5, n_write = 0, n_poll = 3, n_read = 0,
                 trace = [EvInWaiting, EvInWaiting, EvInWaiting]\<rparr>, []))"
    by code_simp
  have r2: "drain chatty_env (lit ''command'') world0 [] =
     Some (Inr (\<lparr>n_time = 5, n_write = 0, n_poll = 3, n_read = 3,
                 trace = [EvInWaiting, EvReadline, EvInWaiting, EvReadline, EvInWaiting, EvReadline]\<rparr>,
                [lit ''Received: OK'', lit ''Received: OK'', lit ''Received: OK'']))"
    by code_simp
  from drain_returns_when_window_elapses[OF a b c, of "lit ''command''" "[]"]
       drain_returns_when_window_elapses[OF a' b' c', of "lit ''command''" "[]"] r1 r2
  show ?thesis by simp
qed

lemma drain_total:
  assumes "\<forall>k. \<exists>m. READ_RESPONSE_DURATION \<le> clock env (k + 1 + m) - clock env k" and "\<forall>k. \<exists>n. in_waiting env k = Inr n"
  shows "\<exists>w'. n_write w' = n_write w \<and>
           (\<exists>evs. trace w' = trace w @ evs \<and> set evs \<subseteq> {EvInWaiting, EvReadline}) \<and>
           (\<forall>phase ls. \<exists>ls'. drain env phase w ls = Some (Inr (w', ls')) \<and> prefix ls ls')"
proof -
  let ?P = "\<lambda>m. READ_RESPONSE_DURATION \<le> clock env (n_time w + 1 + m) - clock env (n_time w)"
  from assms(1) have ex: "\<exists>m. ?P m" by blast
  define m where "m = (LEAST m. ?P m)"
  have Pm: "?P m" unfolding m_def using ex by (rule LeastI_ex)
  have "\<forall>i<m. clock env (n_time w + 1 + i) - clock env (n_time w) < READ_RESPONSE_DURATION"
  proof (intro allI impI)
    fix i assume "i < m"
    then have "\<not> ?P i" unfolding m_def by (rule not_less_Least)
    then show "clock env (n_time w + 1 + i) - clock env (n_time w) < READ_RESPONSE_DURATION" by simp
  qed
  from drain_window[OF this Pm] assms(2) show ?thesis by blast
qed

lemma send_commands_total:
  assumes "\<forall>k. \<exists>m. READ_RESPONSE_DURATION \<le> clock env (k + 1 + m) - clock env k" and "\<forall>k. \<exists>n. in_waiting env k = Inr n"
      and "\<forall>k. write_result env k = None"
      and "\<forall>cmd\<in>set cmds. \<exists>s. cmd = JStr s \<and> list_all (\<lambda>c. c < 128) (py_strip s)"
  shows "\<exists>w' ls'. send_commands env w cmds ls = Some (Inr (w', ls'))"
  using assms(4)
proof (induction cmds arbitrary: w ls)
  case Nil
  show ?case by simp
next
  case (Cons cmd cmds)
  then obtain s where s: "cmd = JStr s" "list_all (\<lambda>c. c < 128) (py_strip s)" by auto
  then have enc: "encode_ascii (py_strip s @ CRLF) = Some (map char_of (py_strip s @ CRLF))"
    by (simp add: encode_ascii_def CRLF_def)
  let ?w1 = "w\<lparr>n_write := n_write w + 1, trace := trace w @ [EvWrite (map char_of (py_strip s @ CRLF))]\<rparr>"
  from drain_total[OF assms(1,2), of ?w1] obtain w2 ls2 where
    "drain env (lit ''command'') ?w1 ls = Some (Inr (w2, ls2))" by blast
  moreover from Cons obtain w' ls' where "send_commands env w2 cmds ls2 = Some (Inr (w', ls'))"
    by (metis list.set_intros(2))
  ultimately show ?case using s enc assms(3) by (simp add: Let_def)
qed

section \<open>Errors while reading\<close>

text \<open>
  C3, as stated, fails: \<^verbatim>\<open>ser.in_waiting\<close> is read in the condition of the \<^verbatim>\<open>if\<close>,
  outside the inner \<^verbatim>\<open>try\<close>. An I/O error raised there during a poll is not turned
  into an annotation: it ends the loop and the request, which answers 500.
\<close>

theorem in_waiting_error_counterexample:
  "write_config unplugged_env (request usb0 (JNum 115200) [JStr (lit ''LOG'')]) =
     Some (Returned (error_response 500
                       (lit ''An unexpected error occurred: [Errno 5] Input/output error'')),
           \<lparr>n_time = 2, n_write = 1, n_poll = 1, n_read = 0,
            trace = [EvOpen usb0 (JNum 115200), EvWrite (''LOG'' @ [CHR 0x0D, CHR 0x0A]),
                     EvInWaiting]\<rparr>)"
  by code_simp

text \<open>
  C3, amended. An error raised by \<^verbatim>\<open>ser.readline()\<close> during a poll inside the window
  (any exception but \<^verbatim>\<open>UnicodeDecodeError\<close>) is caught and appended to the transcript as
  \<^verbatim>\<open>Error reading during <phase>: <text>\<close>, and the loop goes on with the same start time
  from the state after that poll: the rest of the window is the window that would have run
  with the annotation already in the transcript, so what it returns begins with the
  transcript so far and the annotation, followed by whatever is read later.
\<close>

theorem read_error_is_annotated:
  assumes "clock env (n_time w) - start < READ_RESPONSE_DURATION"
      and "in_waiting env (n_poll w) = Inr n" and "0 < n"
      and "readline env (n_read w) = Inl e" and "exn_cls e \<noteq> UnicodeDecodeError"
  shows "drain_loop env phase start w ls =
           drain_loop env phase start
             (w\<lparr>n_time := n_time w + 1, n_poll := n_poll w + 1, n_read := n_read w + 1,
                trace := trace w @ [EvInWaiting, EvReadline]\<rparr>)
             (ls @ [lit ''Error reading during '' @ phase @ lit '': '' @ exn_text e]) \<and>
         (\<forall>w' ls'. drain_loop env phase start w ls = Some (Inr (w', ls')) \<longrightarrow>
            prefix (ls @ [lit ''Error reading during '' @ phase @ lit '': '' @ exn_text e]) ls')"
proof -
  let ?w' = "w\<lparr>n_time := n_time w + 1, n_poll := n_poll w + 1, n_read := n_read w + 1,
                trace := trace w @ [EvInWaiting, EvReadline]\<rparr>"
  let ?ls = "ls @ [lit ''Error reading during '' @ phase @ lit '': '' @ exn_text e]"
  have poll: "drain_poll env phase (w\<lparr>n_time := n_time w + 1\<rparr>) ls = Inr (?w', ?ls)"
    using assms(2-5) by (simp add: drain_poll_def Let_def)
  have step: "drain_loop env phase start w ls = drain_loop env phase start ?w' ?ls"
    using assms(1) poll by (subst drain_loop.simps) (simp add: Let_def)
  have "prefix ?ls ls'" if "drain_loop env phase start w ls = Some (Inr (w', ls'))" for w' ls'
    using drain_loop_prefix[of env phase start ?w' ?ls "Inr (w', ls')"] that step by simp
  with step show ?thesis by blast
qed

theorem read_error_is_annotated_witness:
  "drain_loop flaky_env (lit ''command'') 0
     \<lparr>n_time = 1, n_write = 1, n_poll = 0, n_read = 0, trace = []\<rparr> [] =
   Some (Inr (\<lparr>n_time = 5, n_write = 1, n_poll = 3, n_read = 3,
               trace = [EvInWaiting, EvReadline, EvInWaiting, EvReadline, EvInWaiting, EvReadline]\<rparr>,
              [lit ''Error reading during command: read failed'', lit ''Received: OK'']))"
proof -
  let ?w = "\<lparr>n_time = 1, n_write = 1, n_poll = 0, n_read = 0, trace = []\<rparr>"
  have 1: "clock flaky_env (n_time ?w) - 0 < READ_RESPONSE_DURATION"
    by (simp add: flaky_env_def half_second_env_def idle_env_def READ_RESPONSE_DURATION_def)
  have 2: "in_waiting flaky_env (n_poll ?w) = Inr 4" "(0::int) < 4"
    by (simp_all add: flaky_env_def)
  have 3: "readline flaky_env (n_read ?w) = Inl (Exn SerialException (lit ''read failed''))"
    by (simp add: flaky_env_def)
  have 4: "exn_cls (Exn SerialException (lit ''read failed'')) \<noteq> UnicodeDecodeError"
    by simp
  have rest: "drain_loop flaky_env (lit ''command'') 0
       \<lparr>n_time = 2, n_write = 1, n_poll = 1, n_read = 1, trace = [EvInWaiting, EvReadline]\<rparr>
       [lit ''Error reading during command: read failed''] =
     Some (Inr (\<lparr>n_time = 5, n_write = 1, n_poll = 3, n_read = 3,
               trace = [EvInWaiting, EvReadline, EvInWaiting, EvReadline, EvInWaiting, EvReadline]\<rparr>,
              [lit ''Error reading during command: read failed'', lit ''Received: OK'']))"
    by code_simp
  have ann: "[] @ [lit ''Error reading during '' @ lit ''command'' @ lit '': '' @
               exn_text (Exn SerialException (lit ''read failed''))] =
             [lit ''Error reading during command: read failed'']"
    by (simp add: lit_def)
  from read_error_is_annotated[OF 1 2 3 4, of "lit ''command''" "[]"] rest ann
  show ?thesis by (simp add: numeral_2_eq_2)
qed

section \<open>Closing the port\<close>

text \<open>
  C1. \<^verbatim>\<open>ser.close()\<close> is called on the path of normal completion only. When
  \<^verbatim>\<open>ser.write\<close> raises after a successful open, the handler answers 500 and the log of
  port calls holds the open and the write and no close.
\<close>

theorem write_failure_leaves_port_open:
  "write_config write_timeout_env (request usb0 (JNum 115200) [JStr (lit ''MODE ROVER'')]) =
     Some (Returned (error_response 500
                       (lit ''Failed to open or communicate with serial port '' @ [39] @
                        lit ''/dev/ttyUSB0'' @ [39] @ lit ''. Error: Write timeout'')),
           \<lparr>n_time = 0, n_write = 1, n_poll = 0, n_read = 0,
            trace = [EvOpen usb0 (JNum 115200), EvWrite (''MODE ROVER'' @ [CHR 0x0D, CHR 0x0A])]\<rparr>)"
  by code_simp

section \<open>Lines that are not ASCII\<close>

text \<open>
  C2, as stated, fails: \<^verbatim>\<open>decode('ascii', errors='ignore')\<close> never raises, so the
  \<^verbatim>\<open>except UnicodeDecodeError\<close> clause is not reached by a line of undecodable bytes. The
  bytes are dropped, and here nothing at all is recorded: the request succeeds with an
  empty transcript.
\<close>

theorem binary_line_counterexample:
  "write_config binary_env (request usb0 (JNum 115200) [JStr (lit ''LOG'')]) =
     Some (Returned \<lparr>code = 200, status = lit ''success'',
                     message = lit ''Configuration commands sent successfully.'',
                     received_data = Some []\<rparr>,
           \<lparr>n_time = 3, n_write = 1, n_poll = 1, n_read = 1,
            trace = [EvOpen usb0 (JNum 115200), EvWrite (''LOG'' @ [CHR 0x0D, CHR 0x0A]),
                     EvInWaiting, EvReadline, EvClose]\<rparr>)"
  by code_simp

lemma write_config_success:
  assumes "truthy (dict_get kvs (lit ''port''))" and "truthy (dict_get kvs (lit ''baudrate''))"
      and "dict_get kvs (lit ''commands'') = JArr cmds"
      and "serial_open env (dict_get kvs (lit ''port'')) (dict_get kvs (lit ''baudrate'')) = None"
      and "\<forall>cmd\<in>set cmds. \<exists>s. cmd = JStr s \<and> list_all (\<lambda>c. c < 128) (py_strip s)"
      and "\<forall>k. write_result env k = None"
      and "\<forall>k. \<exists>n. in_waiting env k = Inr n"
      and "\<forall>k. \<exists>m. READ_RESPONSE_DURATION \<le> clock env (k + 1 + m) - clock env k"
  shows "\<exists>ls w. write_config env (JObj kvs) =
           Some (Returned (success_response (lit ''Configuration commands sent successfully.'') ls), w)"
proof -
  from assms(1) have "truthy (JObj kvs)" by (rule truthy_data)
  moreover from send_commands_total[OF assms(8,7,6,5)] obtain w' ls' where
    "send_commands env (world0\<lparr>trace := [EvOpen (dict_get kvs (lit ''port'')) (dict_get kvs (lit ''baudrate''))]\<rparr>) cmds [] = Some (Inr (w', ls'))"
    by blast
  ultimately show ?thesis
    using assms(1-4) by (simp add: write_config_def Let_def py_iter_def) blast
qed

text \<open>
  C2, amended. For every line that \<^verbatim>\<open>readline\<close> returns, the bytes above 127 are dropped,
  the rest is stripped and, when something is left, recorded as \<^verbatim>\<open>Received: <text>\<close>;
  the poll raises nothing and the loop goes on. Whatever \<^verbatim>\<open>readline\<close> returns or raises, a
  valid request with ASCII commands, on a port that opens, accepts the writes and answers
  \<^verbatim>\<open>in_waiting\<close>, with a clock that advances, reports success. The binary-data annotation
  is what the poll records when the read itself raises \<^verbatim>\<open>UnicodeDecodeError\<close>.
\<close>

theorem lossy_decode:
  "(in_waiting env (n_poll w) = Inr n \<and> 0 < n \<and> readline env (n_read w) = Inr bs \<longrightarrow>
      drain_poll env phase w ls =
        Inr (w\<lparr>n_poll := n_poll w + 1, n_read := n_read w + 1,
               trace := trace w @ [EvInWaiting, EvReadline]\<rparr>,
             if py_strip (decode_ascii_ignore bs) = [] then ls
             else ls @ [lit ''Received: '' @ py_strip (decode_ascii_ignore bs)]) \<and>
      list_all (\<lambda>c. c < 128) (decode_ascii_ignore bs)) \<and>
   (truthy (dict_get kvs (lit ''port'')) \<and> truthy (dict_get kvs (lit ''baudrate'')) \<and>
    dict_get kvs (lit ''commands'') = JArr cmds \<and>
    serial_open env (dict_get kvs (lit ''port'')) (dict_get kvs (lit ''baudrate'')) = None \<and>
    (\<forall>cmd\<in>set cmds. \<exists>s. cmd = JStr s \<and> list_all (\<lambda>c. c < 128) (py_strip s)) \<and>
    (\<forall>k. write_result env k = None) \<and> (\<forall>k. \<exists>n. in_waiting env k = Inr n) \<and>
    (\<forall>k. \<exists>m. READ_RESPONSE_DURATION \<le> clock env (k + 1 + m) - clock env k) \<longrightarrow>
      (\<exists>ls w. write_config env (JObj kvs) =
         Some (Returned (success_response (lit ''Configuration commands sent successfully.'') ls), w))) \<and>
   (in_waiting env (n_poll w) = Inr n \<and> 0 < n \<and> readline env (n_read w) = Inl e \<and>
    exn_cls e = UnicodeDecodeError \<longrightarrow>
      drain_poll env phase w ls =
        Inr (w\<lparr>n_poll := n_poll w + 1, n_read := n_read w + 1,
               trace := trace w @ [EvInWaiting, EvReadline]\<rparr>,
             ls @ [lit ''Received: (Binary data - cannot decode as ASCII)'']))"
proof (intro conjI impI)
  assume a: "in_waiting env (n_poll w) = Inr n \<and> 0 < n \<and> readline env (n_read w) = Inr bs"
  then show "drain_poll env phase w ls =
        Inr (w\<lparr>n_poll := n_poll w + 1, n_read := n_read w + 1,
               trace := trace w @ [EvInWaiting, EvReadline]\<rparr>,
             if py_strip (decode_ascii_ignore bs) = [] then ls
             else ls @ [lit ''Received: '' @ py_strip (decode_ascii_ignore bs)])"
    by (simp add: drain_poll_def Let_def)
  show "list_all (\<lambda>c. c < 128) (decode_ascii_ignore bs)"
    by (simp add: decode_ascii_ignore_def list_all_iff)
next
  assume "truthy (dict_get kvs (lit ''port'')) \<and> truthy (dict_get kvs (lit ''baudrate'')) \<and>
    dict_get kvs (lit ''commands'') = JArr cmds \<and>
    serial_open env (dict_get kvs (lit ''port'')) (dict_get kvs (lit ''baudrate'')) = None \<and>
    (\<forall>cmd\<in>set cmds. \<exists>s. cmd = JStr s \<and> list_all (\<lambda>c. c < 128) (py_strip s)) \<and>
    (\<forall>k. write_result env k = None) \<and> (\<forall>k. \<exists>n. in_waiting env k = Inr n) \<and>
    (\<forall>k. \<exists>m. READ_RESPONSE_DURATION \<le> clock env (k + 1 + m) - clock env k)"
  then show "\<exists>ls w. write_config env (JObj kvs) =
         Some (Returned (success_response (lit ''Configuration commands sent successfully.'') ls), w)"
    using write_config_success[of kvs cmds env] by blast
next
  assume "in_waiting env (n_poll w) = Inr n \<and> 0 < n \<and> readline env (n_read w) = Inl e \<and>
    exn_cls e = UnicodeDecodeError"
  then show "drain_poll env phase w ls =
        Inr (w\<lparr>n_poll := n_poll w + 1, n_read := n_read w + 1,
               trace := trace w @ [EvInWaiting, EvReadline]\<rparr>,
             ls @ [lit ''Received: (Binary data - cannot decode as ASCII)''])"
    by (simp add: drain_poll_def Let_def)
qed

theorem lossy_decode_witness:
  "drain_poll binary_env (lit ''command'') world0 [] =
     Inr (\<lparr>n_time = 0, n_write = 0, n_poll = 1, n_read = 1, trace = [EvInWaiting, EvReadline]\<rparr>, []) \<and>
   (\<exists>ls w. write_config binary_env (request usb0 (JNum 115200) [JStr (lit ''LOG'')]) =
      Some (Returned (success_response (lit ''Configuration commands sent successfully.'') ls), w)) \<and>
   drain_poll decode_error_env (lit ''command'') world0 [] =
     Inr (\<lparr>n_time = 0, n_write = 0, n_poll = 1, n_read = 1, trace = [EvInWaiting, EvReadline]\<rparr>,
          [lit ''Received: (Binary data - cannot decode as ASCII)''])"
proof -
  let ?kvs = "[(lit ''port'', usb0), (lit ''baudrate'', JNum 115200), (lit ''commands'', JArr [JStr (lit ''LOG'')])]"
  let ?e = "Exn UnicodeDecodeError (lit ''invalid start byte'')"
  have p: "in_waiting binary_env (n_poll world0) = Inr 3 \<and> (0::int) < 3 \<and>
           readline binary_env (n_read world0) = Inr [CHR 0xFF, CHR 0xFE, CHR 0x0A]"
    by (simp add: binary_env_def)
  have d: "py_strip (decode_ascii_ignore [CHR 0xFF, CHR 0xFE, CHR 0x0A]) = []"
    by (simp add: decode_ascii_ignore_def py_strip_def py_isspace_def)
  have clk: "\<forall>k. \<exists>m. READ_RESPONSE_DURATION \<le> clock binary_env (k + 1 + m) - clock binary_env k"
    by (intro allI exI[of _ 1]) (simp add: binary_env_def idle_env_def READ_RESPONSE_DURATION_def)
  have r: "truthy (dict_get ?kvs (lit ''port'')) \<and> truthy (dict_get ?kvs (lit ''baudrate'')) \<and>
    dict_get ?kvs (lit ''commands'') = JArr [JStr (lit ''LOG'')] \<and>
    serial_open binary_env (dict_get ?kvs (lit ''port'')) (dict_get ?kvs (lit ''baudrate'')) = None \<and>
    (\<forall>cmd\<in>set [JStr (lit ''LOG'')]. \<exists>s. cmd = JStr s \<and> list_all (\<lambda>c. c < 128) (py_strip s)) \<and>
    (\<forall>k. write_result binary_env k = None) \<and> (\<forall>k. \<exists>n. in_waiting binary_env k = Inr n)"
    by (simp add: dict_get_def lit_def usb0_def binary_env_def idle_env_def py_strip_def py_isspace_def)
  have q: "in_waiting decode_error_env (n_poll world0) = Inr 3 \<and> (0::int) < 3 \<and>
           readline decode_error_env (n_read world0) = Inl ?e \<and> exn_cls ?e = UnicodeDecodeError"
    by (simp add: decode_error_env_def)
  from lossy_decode[of binary_env world0 3 "[CHR 0xFF, CHR 0xFE, CHR 0x0A]" "lit ''command''" "[]"
         ?kvs "[JStr (lit ''LOG'')]"] p d clk r
  have 1: "drain_poll binary_env (lit ''command'') world0 [] =
     Inr (\<lparr>n_time = 0, n_write = 0, n_poll = 1, n_read = 1, trace = [EvInWaiting, EvReadline]\<rparr>, []) \<and>
   (\<exists>ls w. write_config binary_env (request usb0 (JNum 115200) [JStr (lit ''LOG'')]) =
      Some (Returned (success_response (lit ''Configuration commands sent successfully.'') ls), w))"
    by (simp add: request_def world0_def)
  from lossy_decode[of decode_error_env world0 3 _ "lit ''command''" "[]" _ _ ?e] q
  have 2: "drain_poll decode_error_env (lit ''command'') world0 [] =
     Inr (\<lparr>n_time = 0, n_write = 0, n_poll = 1, n_read = 1, trace = [EvInWaiting, EvReadline]\<rparr>,
          [lit ''Received: (Binary data - cannot decode as ASCII)''])"
    by (simp add: world0_def)
  from 1 2 show ?thesis by simp
qed


section \<open>\<^verbatim>\<open>save_config\<close>\<close>

text \<open>
  C6. \<^verbatim>\<open>save_config\<close> cannot perform the one write of \<^verbatim>\<open>SAVECONFIG\<close>, carriage return
  and line feed: the line of its body that binds \<^verbatim>\<open>save_command\<close> is indented with
  U+3000, which is not indentation to Python, so the tokenizer stops at line 116 with a
  \<^verbatim>\<open>SyntaxError\<close> and the module that would define the handler is never loaded.
\<close>

theorem line_116_syntax_error:
  "tokenize_indent line_116 =
     Inl (Exn SyntaxError (lit ''invalid non-printable character U+3000''))"
  by (simp add: tokenize_indent_def line_116_def py_indent_char_def py_isspace_def hex4_def
        hex_digit_def lit_def)

end
